theory Spec2Isabelle
  imports Complex_Main "HOL-Library.Word" "HOL-Library.Sublist"
begin

section \<open>Strings and numbers of the host language\<close>

text \<open>
  A JavaScript string is a sequence of UTF-16 code units and \<open>length\<close> counts them.
  String literals of the source are ASCII and are written \<open>lit ''...''\<close>.
\<close>

type_synonym code_unit = "16 word"
type_synonym jstring = "code_unit list"

definition lit :: "string \<Rightarrow> jstring" where
  "lit s = map of_char s"

text \<open>
  The characters matched by the regular expression class \<open>\s\<close> and removed by
  \<open>String.prototype.trim\<close>: the WhiteSpace and LineTerminator code points of ECMAScript.
\<close>

definition is_space :: "code_unit \<Rightarrow> bool" where
  "is_space c \<longleftrightarrow>
     c \<in> set [0x09, 0x0A, 0x0B, 0x0C, 0x0D, 0x20, 0xA0, 0x1680,
               0x2000, 0x2001, 0x2002, 0x2003, 0x2004, 0x2005, 0x2006, 0x2007, 0x2008,
               0x2009, 0x200A, 0x2028, 0x2029, 0x202F, 0x205F, 0x3000, 0xFEFF]"

definition trim :: "jstring \<Rightarrow> jstring" where
  "trim s = rev (dropWhile is_space (rev (dropWhile is_space s)))"

text \<open>\<open>s.replace(/\s+/g, " ")\<close>: every maximal run of white space becomes one space.\<close>

function collapse_ws :: "jstring \<Rightarrow> jstring" where
  "collapse_ws [] = []"
| "collapse_ws (c # cs) =
     (if is_space c then 0x20 # collapse_ws (dropWhile is_space cs)
      else c # collapse_ws cs)"
  by pat_completeness auto
termination
  by (relation "measure length") (auto simp: length_dropWhile_le less_Suc_eq_le)

text \<open>
  A number value. Every finite double is a rational, so the finite numbers are modelled by
  \<open>rat\<close>; the code only tests numbers for truthiness and truncates them, it never does
  arithmetic on them. Negative zero is \<open>Fin 0\<close>: it is falsy and truncates to 0 like zero.
\<close>

datatype jsnum = NaN | PosInf | NegInf | Fin rat

text \<open>\<open>Number(v)\<close> for an argument that is a number or is missing (\<open>undefined\<close>).\<close>

definition Number_of :: "jsnum option \<Rightarrow> jsnum" where
  "Number_of v = (case v of None \<Rightarrow> NaN | Some n \<Rightarrow> n)"

text \<open>\<open>a || b\<close> on numbers: \<open>NaN\<close> and zero are falsy.\<close>

definition num_or :: "jsnum \<Rightarrow> jsnum \<Rightarrow> jsnum" where
  "num_or a b = (if a = NaN \<or> a = Fin 0 then b else a)"

text \<open>\<open>String(v)\<close> for an argument that is a string or is missing (\<open>undefined\<close>).\<close>

definition String_of :: "jstring option \<Rightarrow> jstring" where
  "String_of v = (case v of None \<Rightarrow> lit ''undefined'' | Some s \<Rightarrow> s)"

text \<open>\<open>s || undefined\<close> on an optional string: the empty string is falsy.\<close>

definition or_undefined :: "jstring option \<Rightarrow> jstring option" where
  "or_undefined v = (case v of None \<Rightarrow> None | Some s \<Rightarrow> if s = [] then None else Some s)"

definition falsy :: "jstring option \<Rightarrow> bool" where
  "falsy v \<longleftrightarrow> (case v of None \<Rightarrow> True | Some s \<Rightarrow> s = [])"

datatype int_or_inf = MinusInfinity | Integer int | PlusInfinity

text \<open>The abstract operation ToIntegerOrInfinity: \<open>NaN\<close> is 0, finite numbers truncate
  towards zero.\<close>

definition toIntegerOrInfinity :: "jsnum \<Rightarrow> int_or_inf" where
  "toIntegerOrInfinity n =
     (case n of
        NaN \<Rightarrow> Integer 0
      | PosInf \<Rightarrow> PlusInfinity
      | NegInf \<Rightarrow> MinusInfinity
      | Fin q \<Rightarrow> Integer (if 0 \<le> q then \<lfloor>q\<rfloor> else \<lceil>q\<rceil>))"

text \<open>
  \<open>x.slice(0, end)\<close> of \<open>String.prototype\<close> and of \<open>Array.prototype\<close>: a negative
  \<open>end\<close> counts from the end, the result is clamped to the length.
\<close>

definition slice_to :: "nat \<Rightarrow> jsnum \<Rightarrow> nat" where
  "slice_to len e =
     (case toIntegerOrInfinity e of
        MinusInfinity \<Rightarrow> 0
      | PlusInfinity \<Rightarrow> len
      | Integer k \<Rightarrow> if k < 0 then nat (max (int len + k) 0) else min (nat k) len)"

definition slice0 :: "'a list \<Rightarrow> jsnum \<Rightarrow> 'a list" where
  "slice0 xs e = take (slice_to (length xs) e) xs"

section \<open>The parsed document\<close>

text \<open>
  The HTML parsing library is a collaborator: \<open>cheerio.load\<close> yields a tree, given here
  as the list of the children of its root. The queries the source makes on it are
  modelled on that tree.
\<close>

datatype node =
    Text jstring
  | Comment jstring
  | Element jstring "(jstring \<times> jstring) list" "node list"

type_synonym document = "node list"

fun tag_of :: "node \<Rightarrow> jstring option" where
  "tag_of (Element t as cs) = Some t"
| "tag_of _ = None"

text \<open>\<open>$(el).attr(name)\<close>: \<open>None\<close> is \<open>undefined\<close>.\<close>

fun attr :: "node \<Rightarrow> jstring \<Rightarrow> jstring option" where
  "attr (Element t as cs) name = map_of as name"
| "attr _ name = None"

text \<open>\<open>.attr(name)\<close> of a selection reads the first matched element.\<close>

definition attr_first :: "node list \<Rightarrow> jstring \<Rightarrow> jstring option" where
  "attr_first sel name = (case sel of [] \<Rightarrow> None | el # _ \<Rightarrow> attr el name)"

text \<open>The text of a node: the data of its text descendants, in document order.\<close>

fun textContent :: "node \<Rightarrow> jstring" where
  "textContent (Text s) = s"
| "textContent (Comment s) = []"
| "textContent (Element t as cs) = concat (map textContent cs)"

text \<open>\<open>.text()\<close> of a selection: the texts of all matched elements, concatenated.\<close>

definition text_of :: "node list \<Rightarrow> jstring" where
  "text_of sel = concat (map textContent sel)"

text \<open>The elements of a subtree, the root first, in document order.\<close>

fun subtree_elements :: "node \<Rightarrow> node list" where
  "subtree_elements (Element t as cs) =
     Element t as cs # concat (map subtree_elements cs)"
| "subtree_elements _ = []"

definition all_elements :: "document \<Rightarrow> node list" where
  "all_elements doc = concat (map subtree_elements doc)"

text \<open>\<open>$("tag")\<close>.\<close>

definition select_tag :: "jstring \<Rightarrow> document \<Rightarrow> node list" where
  "select_tag t doc = filter (\<lambda>el. tag_of el = Some t) (all_elements doc)"

definition starts_with :: "jstring \<Rightarrow> jstring \<Rightarrow> bool" where
  "starts_with p s \<longleftrightarrow> take (length p) s = p"

text \<open>\<open>$('meta[a^="p"]')\<close>.\<close>

definition select_meta_prefix :: "jstring \<Rightarrow> jstring \<Rightarrow> document \<Rightarrow> node list" where
  "select_meta_prefix a p doc =
     filter (\<lambda>el. tag_of el = Some (lit ''meta'') \<and>
                  (case attr el a of None \<Rightarrow> False | Some v \<Rightarrow> starts_with p v))
       (all_elements doc)"

text \<open>\<open>$('meta[a="v"]')\<close>.\<close>

definition select_meta_eq :: "jstring \<Rightarrow> jstring \<Rightarrow> document \<Rightarrow> node list" where
  "select_meta_eq a v doc =
     filter (\<lambda>el. tag_of el = Some (lit ''meta'') \<and> attr el a = Some v) (all_elements doc)"

text \<open>\<open>$("t1, t2, ...").remove()\<close>: every element with one of the tags leaves the tree,
  with its subtree.\<close>

definition has_tag_in :: "jstring list \<Rightarrow> node \<Rightarrow> bool" where
  "has_tag_in ts n \<longleftrightarrow> (case tag_of n of None \<Rightarrow> False | Some t \<Rightarrow> t \<in> set ts)"

fun remove_in :: "jstring list \<Rightarrow> node \<Rightarrow> node" where
  "remove_in ts (Element t as cs) =
     Element t as (map (remove_in ts) (filter (\<lambda>c. \<not> has_tag_in ts c) cs))"
| "remove_in ts n = n"

definition remove_tags :: "jstring list \<Rightarrow> document \<Rightarrow> document" where
  "remove_tags ts doc = map (remove_in ts) (filter (\<lambda>c. \<not> has_tag_in ts c) doc)"

section \<open>Link previews\<close>

record LinkPreview =
  url :: jstring
  contentType :: "jstring option"
  language :: "jstring option"
  title :: "jstring option"
  description :: "jstring option"
  image :: "jstring option"
  siteName :: "jstring option"
  type :: "jstring option"
  urlCanonical :: "jstring option"
  twitterCard :: "jstring option"
  favicon :: "jstring option"

text \<open>
  The body of the callback over \<open>$('meta[property^="og:"]')\<close>: each recognised property
  is assigned to its field; an element without property or content is skipped.
\<close>

definition og_step :: "node \<Rightarrow> LinkPreview \<Rightarrow> LinkPreview" where
  "og_step el preview =
     (let property = attr el (lit ''property''); content = attr el (lit ''content'') in
      if falsy property \<or> falsy content then preview
      else if property = Some (lit ''og:title'') then preview\<lparr>title := content\<rparr>
      else if property = Some (lit ''og:description'') then preview\<lparr>description := content\<rparr>
      else if property = Some (lit ''og:image'') then preview\<lparr>image := content\<rparr>
      else if property = Some (lit ''og:site_name'') then preview\<lparr>siteName := content\<rparr>
      else if property = Some (lit ''og:type'') then preview\<lparr>type := content\<rparr>
      else if property = Some (lit ''og:url'') then preview\<lparr>urlCanonical := content\<rparr>
      else preview)"

text \<open>The body of the callback over \<open>$('meta[name^="twitter:"]')\<close>.\<close>

definition twitter_step :: "node \<Rightarrow> LinkPreview \<Rightarrow> LinkPreview" where
  "twitter_step el preview =
     (let name = attr el (lit ''name''); content = attr el (lit ''content'') in
      if falsy name \<or> falsy content then preview
      else if name = Some (lit ''twitter:card'') then preview\<lparr>twitterCard := content\<rparr>
      else if name = Some (lit ''twitter:title'') \<and> falsy (title preview)
        then preview\<lparr>title := content\<rparr>
      else if name = Some (lit ''twitter:description'') \<and> falsy (description preview)
        then preview\<lparr>description := content\<rparr>
      else if name = Some (lit ''twitter:image'') \<and> falsy (image preview)
        then preview\<lparr>image := content\<rparr>
      else preview)"

text \<open>The two scans: \<open>.each\<close> runs the callback on the matched elements in document
  order.\<close>

definition og_scan :: "document \<Rightarrow> LinkPreview \<Rightarrow> LinkPreview" where
  "og_scan doc preview =
     fold og_step (select_meta_prefix (lit ''property'') (lit ''og:'') doc) preview"

definition twitter_scan :: "document \<Rightarrow> LinkPreview \<Rightarrow> LinkPreview" where
  "twitter_scan doc preview =
     fold twitter_step (select_meta_prefix (lit ''name'') (lit ''twitter:'') doc) preview"

text \<open>The fallback for the title: the trimmed text of the \<open>title\<close> elements.\<close>

definition title_fallback :: "document \<Rightarrow> LinkPreview \<Rightarrow> LinkPreview" where
  "title_fallback doc preview =
     (if falsy (title preview)
      then preview\<lparr>title := or_undefined (Some (trim (text_of (select_tag (lit ''title'') doc))))\<rparr>
      else preview)"

text \<open>The fallback for the description: the first \<open>meta[name="description"]\<close> with
  content ends the loop (\<open>return false\<close>).\<close>

fun first_content :: "node list \<Rightarrow> jstring option" where
  "first_content [] = None"
| "first_content (el # els) =
     (if falsy (attr el (lit ''content'')) then first_content els
      else attr el (lit ''content''))"

definition description_fallback :: "document \<Rightarrow> LinkPreview \<Rightarrow> LinkPreview" where
  "description_fallback doc preview =
     (if falsy (description preview)
      then (case first_content (select_meta_eq (lit ''name'') (lit ''description'') doc) of
              None \<Rightarrow> preview
            | Some content \<Rightarrow> preview\<lparr>description := Some content\<rparr>)
      else preview)"

text \<open>
  The part of \<open>fetchLinkPreview\<close> between the parse of the page and the favicon probe,
  for the page address, the \<open>content-type\<close> header of the response and the parsed page.
\<close>

definition initial_preview :: "jstring \<Rightarrow> jstring option \<Rightarrow> document \<Rightarrow> LinkPreview" where
  "initial_preview u ctype doc =
     \<lparr>url = u,
      contentType = or_undefined ctype,
      language = or_undefined (attr_first (select_tag (lit ''html'') doc) (lit ''lang'')),
      title = None, description = None, image = None, siteName = None, type = None,
      urlCanonical = None, twitterCard = None, favicon = None\<rparr>"

definition extract_preview :: "jstring \<Rightarrow> jstring option \<Rightarrow> document \<Rightarrow> LinkPreview" where
  "extract_preview u ctype doc =
     description_fallback doc
       (title_fallback doc
         (twitter_scan doc
           (og_scan doc (initial_preview u ctype doc))))"

text \<open>
  \<open>JSON.stringify(preview)\<close> as the object it denotes, the list of the keys present
  with their values: a field whose value is \<open>undefined\<close> is left out. The keys are listed
  in the order of the interface; the insertion order of the source is not modelled.
\<close>

definition present :: "jstring \<Rightarrow> jstring option \<Rightarrow> (jstring \<times> jstring) list" where
  "present key v = (case v of None \<Rightarrow> [] | Some s \<Rightarrow> [(key, s)])"

definition stringify_preview :: "LinkPreview \<Rightarrow> (jstring \<times> jstring) list" where
  "stringify_preview preview =
     (lit ''url'', url preview) #
     present (lit ''contentType'') (contentType preview) @
     present (lit ''language'') (language preview) @
     present (lit ''title'') (title preview) @
     present (lit ''description'') (description preview) @
     present (lit ''image'') (image preview) @
     present (lit ''siteName'') (siteName preview) @
     present (lit ''type'') (type preview) @
     present (lit ''urlCanonical'') (urlCanonical preview) @
     present (lit ''twitterCard'') (twitterCard preview) @
     present (lit ''favicon'') (favicon preview)"

section \<open>Readable content\<close>

text \<open>\<open>a || b\<close> on strings.\<close>

definition str_or :: "jstring \<Rightarrow> jstring \<Rightarrow> jstring" where
  "str_or a b = (if a = [] then b else a)"

text \<open>The boilerplate selectors of the two versions of the handler.\<close>

definition boilerplate_server_ts :: "jstring list" where
  "boilerplate_server_ts =
     [lit ''script'', lit ''style'', lit ''nav'', lit ''header'', lit ''footer'',
      lit ''iframe'', lit ''noscript'', lit ''aside'', lit ''form'', lit ''button'']"

definition boilerplate_part_000 :: "jstring list" where
  "boilerplate_part_000 =
     [lit ''script'', lit ''style'', lit ''nav'', lit ''header'', lit ''footer'',
      lit ''iframe'', lit ''noscript'', lit ''aside'']"

text \<open>The \<open>get_page_content\<close> branch after the parse: remove, select, normalise, cut.\<close>

definition page_content :: "jstring list \<Rightarrow> document \<Rightarrow> jsnum \<Rightarrow> jstring" where
  "page_content boilerplate doc maxLength =
     (let doc' = remove_tags boilerplate doc;
          content = str_or (text_of (select_tag (lit ''article'') doc'))
                      (str_or (text_of (select_tag (lit ''main'') doc'))
                         (text_of (select_tag (lit ''body'') doc')));
          content = trim (collapse_ws content)
      in slice0 content maxLength)"

section \<open>Search results\<close>

text \<open>The fields are prefixed: \<open>title\<close> and \<open>url\<close> are fields of \<open>LinkPreview\<close>.\<close>

record SearchResult =
  r_title :: jstring
  r_url :: jstring
  r_snippet :: jstring

text \<open>
  The class selector \<open>.c\<close> of the selector engine tests the \<open>class\<close> attribute with the
  regular expression \<open>(?:^|\s)c(?:$|\s)\<close>, and matches nothing when \<open>c\<close> itself contains
  white space: the element has \<open>c\<close> among the pieces of its \<open>class\<close> attribute between
  white space characters.
\<close>

fun split_on :: "(code_unit \<Rightarrow> bool) \<Rightarrow> jstring \<Rightarrow> jstring \<Rightarrow> jstring list" where
  "split_on P cur [] = (if cur = [] then [] else [cur])"
| "split_on P cur (c # cs) =
     (if P c then (if cur = [] then [] else [cur]) @ split_on P [] cs
      else split_on P (cur @ [c]) cs)"

definition has_class :: "jstring \<Rightarrow> node \<Rightarrow> bool" where
  "has_class c el \<longleftrightarrow>
     (case attr el (lit ''class'') of
        None \<Rightarrow> False
      | Some v \<Rightarrow> \<not> list_ex is_space c \<and> c \<in> set (split_on is_space [] v))"

text \<open>\<open>$(".c")\<close>.\<close>

definition select_class :: "jstring \<Rightarrow> document \<Rightarrow> node list" where
  "select_class c doc = filter (has_class c) (all_elements doc)"

text \<open>\<open>$(el).find(".c")\<close>: the descendants of \<open>el\<close> with the class.\<close>

fun find_class :: "jstring \<Rightarrow> node \<Rightarrow> node list" where
  "find_class c (Element t as cs) = filter (has_class c) (concat (map subtree_elements cs))"
| "find_class c _ = []"

text \<open>
  \<open>$(el).find(".result__title a")\<close>: the \<open>a\<close> elements below \<open>el\<close> that are below an
  element of class \<open>result__title\<close>, which is \<open>el\<close> itself or is below \<open>el\<close>, in document
  order. The flag says whether such an ancestor has been passed.
\<close>

fun title_links :: "bool \<Rightarrow> node \<Rightarrow> node list" where
  "title_links inside (Element t as cs) =
     (if inside \<and> t = lit ''a'' then [Element t as cs] else []) @
     concat (map (title_links (inside \<or> has_class (lit ''result__title'') (Element t as cs))) cs)"
| "title_links inside _ = []"

fun find_title_links :: "node \<Rightarrow> node list" where
  "find_title_links (Element t as cs) =
     concat (map (title_links (has_class (lit ''result__title'') (Element t as cs))) cs)"
| "find_title_links _ = []"

text \<open>The body of the callback over \<open>$(".result")\<close>, with the list built so far.\<close>

definition result_step :: "node \<Rightarrow> SearchResult list \<Rightarrow> SearchResult list" where
  "result_step el results =
     (let titleEl = find_title_links el;
          snippetEl = find_class (lit ''result__snippet'') el;
          url = attr_first titleEl (lit ''href'');
          title = trim (text_of titleEl);
          snippet = trim (text_of snippetEl)
      in case url of
           None \<Rightarrow> results
         | Some u \<Rightarrow>
             if u \<noteq> [] \<and> title \<noteq> []
             then results @ [\<lparr>r_title = title, r_url = u, r_snippet = snippet\<rparr>]
             else results)"

text \<open>The part of \<open>searchWeb\<close> after the parse.\<close>

definition search_results :: "document \<Rightarrow> SearchResult list" where
  "search_results doc =
     slice0 (fold result_step (select_class (lit ''result'') doc) []) (Fin 10)"

section \<open>Fetching\<close>

text \<open>
  A thrown value: an \<open>Error\<close> object with its message, or another value with its
  string conversion.
\<close>

datatype exn = Error jstring | Thrown jstring

record response =
  ok :: bool
  content_type_header :: "jstring option"
  body_text :: "exn + jstring"

text \<open>
  The collaborators: the transport below \<open>fetch\<close> (a request with the abort signal of the
  timeout, which is rejected or answered), the error with which \<open>fetch\<close> rejects an
  address that is no absolute URL, the HTML parser, the origin of \<open>new URL(url)\<close> (which
  throws on a malformed address) and \<open>encodeURIComponent\<close> (which throws a \<open>URIError\<close>
  on a lone surrogate).
\<close>

record env =
  transport :: "jstring \<Rightarrow> nat \<Rightarrow> exn + response"
  invalid_url :: "jstring \<Rightarrow> exn"
  load :: "jstring \<Rightarrow> document"
  URL_origin :: "jstring \<Rightarrow> exn + jstring"
  encodeURIComponent :: "jstring \<Rightarrow> exn + jstring"

text \<open>
  An absolute URL has a scheme, which ends at a colon: an address without colon is none.
\<close>

definition has_colon :: "jstring \<Rightarrow> bool" where
  "has_colon u \<longleftrightarrow> 0x3A \<in> set u"

text \<open>
  \<open>fetch(url, {headers, signal})\<close> with the time budget of the abort signal: an address
  that is no absolute URL is rejected when the request object is built, before anything is
  sent; for any other address the transport decides.
\<close>

definition net :: "env \<Rightarrow> jstring \<Rightarrow> nat \<Rightarrow> exn + response" where
  "net e u timeoutMs = (if has_colon u then transport e u timeoutMs else Inl (invalid_url e u))"

text \<open>The requests handed to the transport so far, each with its time budget in
  milliseconds.\<close>

type_synonym log = "(jstring \<times> nat) list"

definition fetchWithTimeout :: "env \<Rightarrow> jstring \<Rightarrow> nat \<Rightarrow> log \<Rightarrow> (exn + response) \<times> log" where
  "fetchWithTimeout e u timeoutMs lg =
     (net e u timeoutMs, if has_colon u then lg @ [(u, timeoutMs)] else lg)"

text \<open>The \<open>try\<close> block of \<open>getFavicon\<close>; \<open>Inr None\<close> is leaving the block without
  \<open>return\<close>.\<close>

definition getFavicon_try :: "env \<Rightarrow> jstring \<Rightarrow> log \<Rightarrow> (exn + jstring option) \<times> log" where
  "getFavicon_try e u lg =
     (case URL_origin e u of
        Inl err \<Rightarrow> (Inl err, lg)
      | Inr origin \<Rightarrow>
          (let faviconUrl = origin @ lit ''/favicon.ico'' in
           case fetchWithTimeout e faviconUrl 3000 lg of
             (Inl err, lg') \<Rightarrow> (Inl err, lg')
           | (Inr resp, lg') \<Rightarrow> (if ok resp then (Inr (Some faviconUrl), lg') else (Inr None, lg'))))"

text \<open>The \<open>catch\<close> clause ignores the error; the function then returns \<open>undefined\<close>.\<close>

definition getFavicon :: "env \<Rightarrow> jstring \<Rightarrow> log \<Rightarrow> (exn + jstring option) \<times> log" where
  "getFavicon e u lg =
     (case getFavicon_try e u lg of
        (Inl err, lg') \<Rightarrow> (Inr None, lg')
      | (Inr r, lg') \<Rightarrow> (Inr r, lg'))"

definition fetchLinkPreview :: "env \<Rightarrow> jstring \<Rightarrow> log \<Rightarrow> (exn + LinkPreview) \<times> log" where
  "fetchLinkPreview e u lg =
     (case fetchWithTimeout e u 15000 lg of
        (Inl err, lg1) \<Rightarrow> (Inl err, lg1)
      | (Inr resp, lg1) \<Rightarrow>
          (case body_text resp of
             Inl err \<Rightarrow> (Inl err, lg1)
           | Inr html \<Rightarrow>
               (let preview = extract_preview u (content_type_header resp) (load e html) in
                case getFavicon e u lg1 of
                  (Inl err, lg2) \<Rightarrow> (Inl err, lg2)
                | (Inr fav, lg2) \<Rightarrow> (Inr (preview\<lparr>favicon := fav\<rparr>), lg2))))"

definition searchWeb :: "env \<Rightarrow> jstring \<Rightarrow> log \<Rightarrow> (exn + SearchResult list) \<times> log" where
  "searchWeb e query lg =
     (case encodeURIComponent e query of
        Inl err \<Rightarrow> (Inl err, lg)
      | Inr encoded \<Rightarrow>
          (let searchUrl = lit ''https://duckduckgo.com/html/?q='' @ encoded @ lit ''&kl=us-en''
           in case fetchWithTimeout e searchUrl 10000 lg of
                (Inl err, lg1) \<Rightarrow> (Inl err, lg1)
              | (Inr resp, lg1) \<Rightarrow>
                  (case body_text resp of
                     Inl err \<Rightarrow> (Inl err, lg1)
                   | Inr html \<Rightarrow> (Inr (search_results (load e html)), lg1))))"

section \<open>The tool handler\<close>

text \<open>
  The arguments of a call, as the tools' input schemas type them; \<open>None\<close> is a missing
  argument.
\<close>

record tool_args =
  arg_url :: "jstring option"
  arg_maxLength :: "jsnum option"
  arg_query :: "jstring option"
  arg_numResults :: "jsnum option"

text \<open>The text of a reply: a JSON object, a JSON array of results, or plain text.\<close>

datatype tool_text =
    JsonObject "(jstring \<times> jstring) list"
  | JsonArray "SearchResult list"
  | PlainText jstring

record tool_reply =
  content :: tool_text
  isError :: bool

text \<open>
  The two versions of the handler: \<open>server.ts\<close> has no \<open>search_web\<close> tool and removes
  forms and buttons too.
\<close>

record version =
  has_search_web :: bool
  boilerplate :: "jstring list"

definition server_ts :: version where
  "server_ts = \<lparr>has_search_web = False, boilerplate = boilerplate_server_ts\<rparr>"

definition part_000 :: version where
  "part_000 = \<lparr>has_search_web = True, boilerplate = boilerplate_part_000\<rparr>"

text \<open>The \<open>try\<close> block of the handler.\<close>

definition call_tool_try ::
  "version \<Rightarrow> env \<Rightarrow> jstring \<Rightarrow> tool_args \<Rightarrow> log \<Rightarrow> (exn + tool_text) \<times> log" where
  "call_tool_try v e name args lg =
     (if name = lit ''fetch_link_preview'' then
        (let u = String_of (arg_url args) in
         if u = [] then (Inl (Error (lit ''URL is required'')), lg)
         else case fetchLinkPreview e u lg of
                (Inl err, lg') \<Rightarrow> (Inl err, lg')
              | (Inr preview, lg') \<Rightarrow> (Inr (JsonObject (stringify_preview preview)), lg'))
      else if has_search_web v \<and> name = lit ''search_web'' then
        (let query = String_of (arg_query args);
             numResults = num_or (Number_of (arg_numResults args)) (Fin 10)
         in case searchWeb e query lg of
              (Inl err, lg') \<Rightarrow> (Inl err, lg')
            | (Inr results, lg') \<Rightarrow> (Inr (JsonArray (slice0 results numResults)), lg'))
      else if name = lit ''get_page_content'' then
        (let u = String_of (arg_url args);
             maxLength = num_or (Number_of (arg_maxLength args)) (Fin 5000)
         in case fetchWithTimeout e u 15000 lg of
              (Inl err, lg') \<Rightarrow> (Inl err, lg')
            | (Inr resp, lg') \<Rightarrow>
                (case body_text resp of
                   Inl err \<Rightarrow> (Inl err, lg')
                 | Inr html \<Rightarrow>
                     (Inr (PlainText (page_content (boilerplate v) (load e html) maxLength)), lg')))
      else (Inl (Error (lit ''Unknown tool: '' @ name)), lg))"

text \<open>\<open>error instanceof Error ? error.message : String(error)\<close>.\<close>

definition message_of :: "exn \<Rightarrow> jstring" where
  "message_of err = (case err of Error m \<Rightarrow> m | Thrown s \<Rightarrow> s)"

text \<open>The handler: the \<open>catch\<close> clause turns a thrown value into an error reply.\<close>

definition call_tool ::
  "version \<Rightarrow> env \<Rightarrow> jstring \<Rightarrow> tool_args \<Rightarrow> log \<Rightarrow> tool_reply \<times> log" where
  "call_tool v e name args lg =
     (case call_tool_try v e name args lg of
        (Inl err, lg') \<Rightarrow>
          (\<lparr>content = JsonObject [(lit ''error'', message_of err)], isError = True\<rparr>, lg')
      | (Inr t, lg') \<Rightarrow> (\<lparr>content = t, isError = False\<rparr>, lg'))"

section \<open>Notions of the specification\<close>

text \<open>
  The favicon probe fails: the page address is malformed, the request is rejected (time
  out, network failure), or the answer has a status that is not a success.
\<close>

definition favicon_probe_fails :: "env \<Rightarrow> jstring \<Rightarrow> bool" where
  "favicon_probe_fails e u \<longleftrightarrow>
     (case URL_origin e u of
        Inl err \<Rightarrow> True
      | Inr origin \<Rightarrow>
          (case net e (origin @ lit ''/favicon.ico'') 3000 of
             Inl err \<Rightarrow> True
           | Inr resp \<Rightarrow> \<not> ok resp))"

text \<open>
  The contents of the \<open>meta\<close> elements whose attribute \<open>a\<close> is \<open>v\<close>, in document order,
  those that are missing or empty left out.
\<close>

definition meta_contents :: "jstring \<Rightarrow> jstring \<Rightarrow> document \<Rightarrow> jstring list" where
  "meta_contents a v doc =
     List.map_filter (\<lambda>el. or_undefined (attr el (lit ''content''))) (select_meta_eq a v doc)"

text \<open>The same for a list of elements already selected.\<close>

definition contents_of :: "jstring \<Rightarrow> jstring \<Rightarrow> node list \<Rightarrow> jstring list" where
  "contents_of a v els =
     List.map_filter (\<lambda>el. or_undefined (attr el (lit ''content'')))
       (filter (\<lambda>el. attr el a = Some v) els)"

text \<open>The last of the contents \<open>cs\<close>, or the value \<open>v\<close> before them when there are
  none.\<close>

definition last_or :: "jstring option \<Rightarrow> jstring list \<Rightarrow> jstring option" where
  "last_or v cs = (if cs = [] then v else Some (last cs))"

text \<open>
  The page in which every \<open>script\<close> element holds the nodes \<open>new\<close> instead of what it
  held.
\<close>

fun with_script_content :: "node list \<Rightarrow> node \<Rightarrow> node" where
  "with_script_content new (Element t as cs) =
     (if t = lit ''script'' then Element t as new
      else Element t as (map (with_script_content new) cs))"
| "with_script_content new n = n"

text \<open>
  A result block as the specification reads it: its link is the \<open>href\<close> of its first title
  anchor, its title the trimmed text of its title anchors; it is valid when both are not
  empty.
\<close>

definition block_link :: "node \<Rightarrow> jstring option" where
  "block_link el = attr_first (find_title_links el) (lit ''href'')"

definition block_title :: "node \<Rightarrow> jstring" where
  "block_title el = trim (text_of (find_title_links el))"

definition block_ok :: "node \<Rightarrow> bool" where
  "block_ok el \<longleftrightarrow> \<not> falsy (block_link el) \<and> block_title el \<noteq> []"

definition block_record :: "node \<Rightarrow> SearchResult" where
  "block_record el =
     \<lparr>r_title = block_title el,
      r_url = (case block_link el of None \<Rightarrow> [] | Some u \<Rightarrow> u),
      r_snippet = trim (text_of (find_class (lit ''result__snippet'') el))\<rparr>"

section \<open>Sample pages and environments\<close>

text \<open>
  An environment in which every page request (budgets of 10 and 15 seconds) that reaches
  the transport is answered with a page that parses to \<open>doc\<close>, and the favicon probe
  (budget of 3 seconds) ends as \<open>fav\<close> says.
\<close>

definition ok_response :: response where
  "ok_response = \<lparr>ok = True, content_type_header = None, body_text = Inr []\<rparr>"

definition serve :: "document \<Rightarrow> exn + response \<Rightarrow> env" where
  "serve doc fav =
     \<lparr>transport = (\<lambda>u t. if t = 3000 then fav else Inr ok_response),
      invalid_url = (\<lambda>u. Error (lit ''Invalid URL'')),
      load = (\<lambda>html. doc),
      URL_origin = (\<lambda>u. Inr u),
      encodeURIComponent = (\<lambda>q. Inr q)\<rparr>"

definition not_found :: "exn + response" where
  "not_found = Inr \<lparr>ok = False, content_type_header = None, body_text = Inr []\<rparr>"

definition no_args :: tool_args where
  "no_args = \<lparr>arg_url = None, arg_maxLength = None, arg_query = None, arg_numResults = None\<rparr>"

definition meta_tag :: "string \<Rightarrow> string \<Rightarrow> string \<Rightarrow> node" where
  "meta_tag a v c = Element (lit ''meta'') [(lit a, lit v), (lit ''content'', lit c)] []"

definition page_of :: "node list \<Rightarrow> node list \<Rightarrow> document" where
  "page_of hd_nodes body_nodes =
     [Element (lit ''html'') []
        [Element (lit ''head'') [] hd_nodes, Element (lit ''body'') [] body_nodes]]"

definition two_og_titles_page :: document where
  "two_og_titles_page =
     page_of [meta_tag ''property'' ''og:title'' ''First'',
              meta_tag ''property'' ''og:title'' ''Second''] []"

definition og_and_twitter_page :: document where
  "og_and_twitter_page =
     page_of [meta_tag ''name'' ''twitter:title'' ''Tweet'',
              meta_tag ''property'' ''og:title'' ''Open'',
              Element (lit ''title'') [] [Text (lit ''Plain'')]] []"

definition untitled_page :: document where
  "untitled_page =
     page_of [Element (lit ''title'') [] [Text (lit ''  '')],
              meta_tag ''property'' ''og:title'' []] [Text (lit ''hello'')]"

definition rich_page :: document where
  "rich_page =
     page_of [meta_tag ''property'' ''og:title'' ''OgT'',
              meta_tag ''property'' ''og:description'' ''Old'',
              meta_tag ''property'' ''og:description'' ''OgD'',
              meta_tag ''property'' ''og:image'' ''OgI'',
              meta_tag ''name'' ''twitter:title'' ''TwT'',
              meta_tag ''name'' ''twitter:description'' ''TwD'',
              meta_tag ''name'' ''twitter:image'' ''TwI'',
              meta_tag ''name'' ''description'' ''Plain'',
              Element (lit ''title'') [] [Text (lit ''Plain title'')]] []"

definition abc_page :: document where
  "abc_page = page_of [] [Text (lit ''abc'')]"

definition script_page :: document where
  "script_page =
     page_of [] [Element (lit ''p'') [] [Text (lit ''hi'')],
                 Element (lit ''script'') [] [Text (lit ''hi'')]]"

definition long_page :: document where
  "long_page = page_of [] [Text (replicate 6000 0x61)]"

definition result_block :: "string \<Rightarrow> node" where
  "result_block t =
     Element (lit ''div'') [(lit ''class'', lit ''result'')]
       [Element (lit ''h2'') [(lit ''class'', lit ''result__title'')]
          [Element (lit ''a'') [(lit ''href'', lit ''http://x'')] [Text (lit t)]]]"

text \<open>
  Two blocks: one that has the class \<open>result__title\<close> itself, and one whose class names
  are separated by a no-break space.
\<close>

definition odd_blocks_page :: document where
  "odd_blocks_page =
     page_of []
       [Element (lit ''div'') [(lit ''class'', lit ''result result__title'')]
          [Element (lit ''a'') [(lit ''href'', lit ''http://x'')] [Text (lit ''T'')]],
        Element (lit ''div'') [(lit ''class'', lit ''result'' @ [0xA0] @ lit ''x'')]
          [Element (lit ''h2'') [(lit ''class'', lit ''result__title'')]
             [Element (lit ''a'') [(lit ''href'', lit ''http://y'')] [Text (lit ''U'')]]]]"

definition eleven_results_page :: document where
  "eleven_results_page = page_of [] (replicate 10 (result_block ''A'') @ [result_block ''B''])"

section \<open>Properties\<close>

subsection \<open>Cutting strings and result lists\<close>

lemma slice_to_le: "slice_to len e \<le> len"
  by (auto simp: slice_to_def split: int_or_inf.splits)

lemma length_slice0_le: "length (slice0 xs e) \<le> length xs"
  by (simp add: slice0_def)

lemma slice0_Fin_nat: "slice0 xs (Fin (of_nat n)) = take n xs"
  by (simp add: slice0_def slice_to_def toIntegerOrInfinity_def min_def)

lemma slice0_Fin_numeral: "slice0 xs (Fin (numeral n)) = take (numeral n) xs"
  using slice0_Fin_nat [of xs "numeral n"] by simp

lemma slice0_PosInf: "slice0 xs PosInf = xs"
  by (simp add: slice0_def slice_to_def toIntegerOrInfinity_def)

subsection \<open>Result blocks\<close>

lemma fold_result_step:
  "fold result_step els acc = acc @ map block_record (filter block_ok els)"
proof (induction els arbitrary: acc)
  case Nil
  show ?case by simp
next
  case (Cons el els)
  have "result_step el acc = (if block_ok el then acc @ [block_record el] else acc)"
    by (auto simp: result_step_def block_ok_def block_record_def block_link_def block_title_def
        Let_def falsy_def split: option.splits)
  then show ?case
    by (simp add: Cons.IH)
qed

lemma search_results_eq:
  "search_results doc = take 10 (map block_record (filter block_ok (select_class (lit ''result'') doc)))"
  by (simp add: search_results_def fold_result_step slice0_Fin_numeral)

text \<open>The sample result blocks.\<close>

lemma result_block_elements:
  "subtree_elements (result_block t) =
     [result_block t,
      Element (lit ''h2'') [(lit ''class'', lit ''result__title'')]
        [Element (lit ''a'') [(lit ''href'', lit ''http://x'')] [Text (lit t)]],
      Element (lit ''a'') [(lit ''href'', lit ''http://x'')] [Text (lit t)]]"
  by (simp add: result_block_def)

lemma result_block_classes:
  "has_class (lit ''result'') (result_block t)"
  "\<not> has_class (lit ''result'') (Element (lit ''h2'') [(lit ''class'', lit ''result__title'')] cs)"
  "\<not> has_class c (Element tg [] cs)"
  "\<not> has_class c (Element (lit ''a'') [(lit ''href'', v)] cs)"
  by (simp_all add: has_class_def result_block_def lit_def is_space_def)

lemma result_block_title_links:
  "find_title_links (result_block t)
     = [Element (lit ''a'') [(lit ''href'', lit ''http://x'')] [Text (lit t)]]"
  by (simp add: result_block_def has_class_def lit_def is_space_def)

lemma result_block_snippet: "find_class (lit ''result__snippet'') (result_block t) = []"
  by (simp add: result_block_def has_class_def lit_def is_space_def)

lemma result_block_record:
  "block_record (result_block t)
     = \<lparr>r_title = trim (lit t), r_url = lit ''http://x'', r_snippet = []\<rparr>"
  by (simp add: block_record_def block_title_def block_link_def result_block_title_links
      result_block_snippet attr_first_def text_of_def trim_def)

lemma result_block_ok: "block_ok (result_block t) \<longleftrightarrow> trim (lit t) \<noteq> []"
  by (simp add: block_ok_def block_title_def block_link_def result_block_title_links
      attr_first_def text_of_def falsy_def lit_def)

lemma select_result_blocks:
  "select_class (lit ''result'') (page_of [] (map result_block ts)) = map result_block ts"
proof -
  have "filter (has_class (lit ''result'')) (concat (map subtree_elements (map result_block ts)))
          = map result_block ts"
    by (induction ts) (simp_all add: result_block_elements result_block_classes)
  then show ?thesis
    by (simp add: select_class_def all_elements_def page_of_def result_block_classes)
qed

lemma trim_A_B: "trim (lit ''A'') = lit ''A''" "trim (lit ''B'') = lit ''B''"
  by (simp_all add: trim_def lit_def is_space_def)

lemma eleven_results_blocks:
  "select_class (lit ''result'') eleven_results_page
     = replicate 10 (result_block ''A'') @ [result_block ''B'']"
  using select_result_blocks [of "replicate 10 ''A'' @ [''B'']"]
  by (simp add: eleven_results_page_def)

lemma eleven_results_value:
  "search_results eleven_results_page
     = replicate 10 \<lparr>r_title = lit ''A'', r_url = lit ''http://x'', r_snippet = []\<rparr>"
proof -
  have "lit ''A'' \<noteq> []" "lit ''B'' \<noteq> []" by (simp_all add: lit_def)
  then show ?thesis
    by (simp add: search_results_eq eleven_results_blocks result_block_ok result_block_record
        trim_A_B)
qed

lemma searchWeb_serve: "fst (searchWeb (serve doc fav) q lg) = Inr (search_results doc)"
  by (simp add: searchWeb_def serve_def fetchWithTimeout_def net_def has_colon_def lit_def
      ok_response_def Let_def)

lemma search_web_serve:
  "content (fst (call_tool part_000 (serve doc fav) (lit ''search_web'') args lg))
     = JsonArray (slice0 (search_results doc) (num_or (Number_of (arg_numResults args)) (Fin 10)))"
proof -
  have n: "lit ''search_web'' \<noteq> lit ''fetch_link_preview''" by (simp add: lit_def)
  obtain lg' where "searchWeb (serve doc fav) (String_of (arg_query args)) lg
      = (Inr (search_results doc), lg')"
    using searchWeb_serve [of doc fav "String_of (arg_query args)" lg]
    by (cases "searchWeb (serve doc fav) (String_of (arg_query args)) lg") simp
  then show ?thesis
    by (simp add: call_tool_def call_tool_try_def n part_000_def Let_def)
qed

subsection \<open>The bound on the search results\<close>

lemma length_search_results: "length (search_results doc) \<le> 10"
  by (simp add: search_results_def slice0_Fin_numeral)

lemma fetchWithTimeout_ok:
  "net e u t = Inr resp \<Longrightarrow> fetchWithTimeout e u t lg = (Inr resp, lg @ [(u, t)])"
  by (auto simp: fetchWithTimeout_def net_def split: if_splits)

lemma fetchWithTimeout_rejected:
  "\<not> has_colon u \<Longrightarrow> fetchWithTimeout e u t lg = (Inl (invalid_url e u), lg)"
  by (simp add: fetchWithTimeout_def net_def)

lemma searchWeb_at_most_10: "searchWeb e q lg = (Inr rs, lg') \<Longrightarrow> length rs \<le> 10"
  by (auto simp: searchWeb_def fetchWithTimeout_def Let_def length_search_results
      split: sum.splits if_splits)

lemma tool_names_distinct:
  "lit ''get_page_content'' \<noteq> lit ''fetch_link_preview''"
  "lit ''get_page_content'' \<noteq> lit ''search_web''"
  "lit ''search_web'' \<noteq> lit ''fetch_link_preview''"
  by (simp_all add: lit_def)

lemma page_content_cut:
  "page_content bp doc (Fin (numeral n)) = take (numeral n) (page_content bp doc PosInf)"
  by (simp add: page_content_def Let_def slice0_Fin_numeral slice0_PosInf)

lemma get_page_content_reply:
  assumes "net e (String_of (arg_url args)) 15000 = Inr resp"
    and "body_text resp = Inr html"
  shows "call_tool v e (lit ''get_page_content'') args lg =
           (\<lparr>content = PlainText (page_content (boilerplate v) (load e html)
                                   (num_or (Number_of (arg_maxLength args)) (Fin 5000))),
             isError = False\<rparr>,
            lg @ [(String_of (arg_url args), 15000)])"
  using assms
  by (simp add: call_tool_def call_tool_try_def tool_names_distinct fetchWithTimeout_ok Let_def)

text \<open>
  Claim C10. Whatever the query and the \<open>numResults\<close> argument, a reply of the
  \<open>search_web\<close> tool that carries a result array carries at most ten results:
  \<open>searchWeb\<close> cuts its list to ten before the handler cuts it to \<open>numResults\<close>.
\<close>
theorem search_web_at_most_10:
  assumes "call_tool v e (lit ''search_web'') args lg = (reply, lg')"
    and "content reply = JsonArray rs"
  shows "length rs \<le> 10"
proof -
  from assms obtain rs0 lg0 where s: "searchWeb e (String_of (arg_query args)) lg = (Inr rs0, lg0)"
    and r: "rs = slice0 rs0 (num_or (Number_of (arg_numResults args)) (Fin 10))"
    by (auto simp: call_tool_def call_tool_try_def Let_def tool_names_distinct
        split: sum.splits prod.splits if_splits)
  have "length rs \<le> length rs0" unfolding r by (rule length_slice0_le)
  with searchWeb_at_most_10 [OF s] show ?thesis by simp
qed

theorem search_web_at_most_10_witness:
  "\<exists>rs. content (fst (call_tool part_000 (serve eleven_results_page not_found) (lit ''search_web'')
           (no_args\<lparr>arg_query := Some (lit ''q''), arg_numResults := Some (Fin 50)\<rparr>) [])) = JsonArray rs
      \<and> length rs = 10 \<and> length rs \<le> 10"
proof -
  let ?call = "call_tool part_000 (serve eleven_results_page not_found) (lit ''search_web'')
           (no_args\<lparr>arg_query := Some (lit ''q''), arg_numResults := Some (Fin 50)\<rparr>) []"
  have c: "content (fst ?call) = JsonArray (replicate 10 \<lparr>r_title = lit ''A'', r_url = lit ''http://x'', r_snippet = []\<rparr>)"
    by (simp add: search_web_serve eleven_results_value no_args_def Number_of_def num_or_def
        slice0_Fin_numeral)
  have "length (replicate 10 \<lparr>r_title = lit ''A'', r_url = lit ''http://x'', r_snippet = []\<rparr>) \<le> 10"
    using search_web_at_most_10 [of part_000 "serve eleven_results_page not_found" _ "[]" "fst ?call" "snd ?call", OF _ c]
    by simp
  with c show ?thesis by simp
qed

text \<open>
  Claim C9. When the \<open>maxLength\<close> argument of \<open>get_page_content\<close> is 0, or coerces
  to \<open>NaN\<close> (a missing argument does), the text returned is the normalised content cut
  at the default of 5000 characters, so its length is the smaller of 5000 and the length of
  that content.
\<close>
theorem falsy_maxLength_uses_default:
  assumes "Number_of (arg_maxLength args) = Fin 0 \<or> Number_of (arg_maxLength args) = NaN"
    and "net e (String_of (arg_url args)) 15000 = Inr resp"
    and "body_text resp = Inr html"
  shows "\<exists>t. content (fst (call_tool v e (lit ''get_page_content'') args lg)) = PlainText t \<and>
           t = take 5000 (page_content (boilerplate v) (load e html) PosInf) \<and>
           length t = min 5000 (length (page_content (boilerplate v) (load e html) PosInf))"
proof -
  from assms(1) have "num_or (Number_of (arg_maxLength args)) (Fin 5000) = Fin 5000"
    by (auto simp: num_or_def)
  then show ?thesis
    using get_page_content_reply [OF assms(2,3), of v lg]
    by (simp add: page_content_cut min.commute)
qed

text \<open>A page whose body is one text without white space.\<close>

lemma collapse_ws_no_space: "\<forall>c \<in> set s. \<not> is_space c \<Longrightarrow> collapse_ws s = s"
  by (induction s) auto

lemma trim_no_space: "\<forall>c \<in> set s. \<not> is_space c \<Longrightarrow> trim s = s"
proof -
  have d: "dropWhile is_space xs = xs" if "\<forall>c \<in> set xs. \<not> is_space c" for xs
    using that by (cases xs) auto
  assume "\<forall>c \<in> set s. \<not> is_space c"
  then show ?thesis
    by (simp add: trim_def d)
qed

lemma page_content_body_text:
  "page_content (boilerplate v) (page_of [] [Text s]) PosInf = trim (collapse_ws s)"
  if "v = server_ts \<or> v = part_000"
proof -
  have names: "lit ''html'' \<noteq> lit ''article''" "lit ''head'' \<noteq> lit ''article''" "lit ''body'' \<noteq> lit ''article''"
    "lit ''html'' \<noteq> lit ''main''" "lit ''head'' \<noteq> lit ''main''" "lit ''body'' \<noteq> lit ''main''"
    "lit ''html'' \<noteq> lit ''body''" "lit ''head'' \<noteq> lit ''body''"
    by (simp_all add: lit_def)
  have keep: "\<not> has_tag_in (boilerplate v) (Element (lit ''html'') a cs)"
    "\<not> has_tag_in (boilerplate v) (Element (lit ''head'') a cs)"
    "\<not> has_tag_in (boilerplate v) (Element (lit ''body'') a cs)"
    "\<not> has_tag_in (boilerplate v) (Text s)" for a cs
    using that
    by (auto simp: has_tag_in_def server_ts_def part_000_def boilerplate_server_ts_def
        boilerplate_part_000_def lit_def)
  have r: "remove_tags (boilerplate v) (page_of [] [Text s]) = page_of [] [Text s]"
    by (simp add: remove_tags_def page_of_def keep)
  have a: "select_tag (lit ''article'') (page_of [] [Text s]) = []"
    and m: "select_tag (lit ''main'') (page_of [] [Text s]) = []"
    and b: "select_tag (lit ''body'') (page_of [] [Text s]) = [Element (lit ''body'') [] [Text s]]"
    by (simp_all add: select_tag_def all_elements_def page_of_def names)
  show ?thesis
    by (simp add: page_content_def r a m b Let_def text_of_def str_or_def slice0_PosInf)
qed

theorem falsy_maxLength_uses_default_witness:
  "\<exists>t. content (fst (call_tool server_ts (serve long_page not_found) (lit ''get_page_content'')
           (no_args\<lparr>arg_url := Some (lit ''http://a''), arg_maxLength := Some (Fin 0)\<rparr>) []))
         = PlainText t \<and> length t = 5000"
proof -
  let ?e = "serve long_page not_found"
  let ?args = "no_args\<lparr>arg_url := Some (lit ''http://a''), arg_maxLength := Some (Fin 0)\<rparr>"
  have h1: "Number_of (arg_maxLength ?args) = Fin 0 \<or> Number_of (arg_maxLength ?args) = NaN"
    by (simp add: Number_of_def)
  have h2: "net ?e (String_of (arg_url ?args)) 15000 = Inr ok_response"
    by code_simp
  have h3: "body_text ok_response = Inr []"
    by (simp add: ok_response_def)
  have ns: "\<forall>c \<in> set (replicate 6000 (0x61 :: code_unit)). \<not> is_space c"
    by (simp add: is_space_def)
  have "page_content (boilerplate server_ts) (load ?e []) PosInf = replicate 6000 0x61"
    using page_content_body_text [of server_ts "replicate 6000 0x61"]
    by (simp add: serve_def long_page_def collapse_ws_no_space [OF ns] trim_no_space [OF ns])
  with falsy_maxLength_uses_default [OF h1 h2 h3, of server_ts "[]"] show ?thesis
    by simp
qed

text \<open>
  Claim C2. The claim bounds the length of the text by \<open>maxLength\<close> for every
  \<open>maxLength \<ge> 0\<close>. For a page whose body is \<open>abc\<close> and \<open>maxLength = 0\<close>, both
  versions of the handler return the three characters \<open>abc\<close>.
\<close>
theorem zero_maxLength_returns_text:
  "fst (call_tool server_ts (serve abc_page not_found) (lit ''get_page_content'')
           (no_args\<lparr>arg_url := Some (lit ''http://a''), arg_maxLength := Some (Fin 0)\<rparr>) [])
     = \<lparr>content = PlainText (lit ''abc''), isError = False\<rparr> \<and>
   fst (call_tool part_000 (serve abc_page not_found) (lit ''get_page_content'')
           (no_args\<lparr>arg_url := Some (lit ''http://a''), arg_maxLength := Some (Fin 0)\<rparr>) [])
     = \<lparr>content = PlainText (lit ''abc''), isError = False\<rparr> \<and>
   \<not> length (lit ''abc'') \<le> 0"
  by code_simp

text \<open>For a positive \<open>maxLength\<close> the cut is at \<open>maxLength\<close>.\<close>

lemma page_content_length:
  assumes "0 < q"
  shows "of_nat (length (page_content bp doc (Fin q))) \<le> q"
proof -
  have "of_nat (length (slice0 xs (Fin q))) \<le> q" for xs :: jstring
  proof -
    have "length (slice0 xs (Fin q)) \<le> nat \<lfloor>q\<rfloor>"
      using assms by (simp add: slice0_def slice_to_def toIntegerOrInfinity_def)
    then have "(of_nat (length (slice0 xs (Fin q))) :: rat) \<le> of_nat (nat \<lfloor>q\<rfloor>)"
      by (simp only: of_nat_le_iff)
    also have "\<dots> = of_int \<lfloor>q\<rfloor>"
      using assms by simp
    also have "\<dots> \<le> q"
      by simp
    finally show ?thesis .
  qed
  then show ?thesis
    by (simp add: page_content_def Let_def)
qed

text \<open>
  Claim C3. When the \<open>url\<close> argument of \<open>fetch_link_preview\<close> is the empty string or
  is missing, the reply is an error object with the error flag, and no request has been
  handed to the transport. For the empty string the guard of the handler throws; for a
  missing argument \<open>String(undefined)\<close> is the string \<open>undefined\<close>, which passes the guard
  and is rejected by \<open>fetch\<close> as no absolute URL.
\<close>
theorem missing_or_empty_url_is_error:
  assumes "arg_url args = None \<or> arg_url args = Some []"
  shows "call_tool v e (lit ''fetch_link_preview'') args lg =
           (\<lparr>content = JsonObject
                [(lit ''error'',
                  if arg_url args = None then message_of (invalid_url e (lit ''undefined''))
                  else lit ''URL is required'')],
             isError = True\<rparr>, lg)"
proof -
  have u: "lit ''undefined'' \<noteq> []" "\<not> has_colon (lit ''undefined'')"
    by (simp_all add: lit_def has_colon_def)
  have "fetchLinkPreview e (lit ''undefined'') lg = (Inl (invalid_url e (lit ''undefined'')), lg)"
    by (simp add: fetchLinkPreview_def fetchWithTimeout_rejected u)
  with assms show ?thesis
    by (auto simp: call_tool_def call_tool_try_def String_of_def Let_def u message_of_def)
qed

theorem missing_or_empty_url_is_error_witness:
  "call_tool server_ts (serve abc_page not_found) (lit ''fetch_link_preview'') no_args []
     = (\<lparr>content = JsonObject [(lit ''error'', lit ''Invalid URL'')], isError = True\<rparr>, []) \<and>
   call_tool part_000 (serve abc_page not_found) (lit ''fetch_link_preview'')
       (no_args\<lparr>arg_url := Some []\<rparr>) []
     = (\<lparr>content = JsonObject [(lit ''error'', lit ''URL is required'')], isError = True\<rparr>, [])"
proof -
  have h1: "arg_url no_args = None \<or> arg_url no_args = Some []"
    by (simp add: no_args_def)
  have h2: "arg_url (no_args\<lparr>arg_url := Some []\<rparr>) = None \<or>
            arg_url (no_args\<lparr>arg_url := Some []\<rparr>) = Some []"
    by simp
  have m: "message_of (invalid_url (serve abc_page not_found) (lit ''undefined'')) = lit ''Invalid URL''"
    by (simp add: serve_def message_of_def)
  from missing_or_empty_url_is_error [OF h1, of server_ts "serve abc_page not_found" "[]"]
    missing_or_empty_url_is_error [OF h2, of part_000 "serve abc_page not_found" "[]"] m
  show ?thesis by (simp add: no_args_def)
qed

subsection \<open>The favicon probe\<close>

lemma getFavicon_cases:
  "getFavicon e u lg =
     (case URL_origin e u of
        Inl err \<Rightarrow> (Inr None, lg)
      | Inr origin \<Rightarrow>
          (case net e (origin @ lit ''/favicon.ico'') 3000 of
             Inl err \<Rightarrow> (Inr None, snd (fetchWithTimeout e (origin @ lit ''/favicon.ico'') 3000 lg))
           | Inr resp \<Rightarrow>
               (Inr (if ok resp then Some (origin @ lit ''/favicon.ico'') else None),
                snd (fetchWithTimeout e (origin @ lit ''/favicon.ico'') 3000 lg))))"
  by (simp add: getFavicon_def getFavicon_try_def fetchWithTimeout_def Let_def split: sum.splits)

lemma getFavicon_returns: "\<exists>r lg'. getFavicon e u lg = (Inr r, lg')"
  by (simp add: getFavicon_cases split: sum.splits)

lemma getFavicon_fails: "favicon_probe_fails e u \<Longrightarrow> fst (getFavicon e u lg) = Inr None"
  by (auto simp: getFavicon_cases favicon_probe_fails_def split: sum.splits)

lemma fetchLinkPreview_ok:
  assumes "net e u 15000 = Inr resp" and "body_text resp = Inr html"
  shows "\<exists>fav lg'. getFavicon e u (lg @ [(u, 15000)]) = (Inr fav, lg') \<and>
           fetchLinkPreview e u lg =
             (Inr ((extract_preview u (content_type_header resp) (load e html))\<lparr>favicon := fav\<rparr>), lg')"
proof -
  obtain fav lg' where "getFavicon e u (lg @ [(u, 15000)]) = (Inr fav, lg')"
    using getFavicon_returns by blast
  then show ?thesis
    using assms by (simp add: fetchLinkPreview_def fetchWithTimeout_ok Let_def)
qed

lemma map_of_present: "map_of (present k v) k' = (if k' = k then v else None)"
  by (simp add: present_def split: option.splits)

lemma keys_distinct:
  "lit ''favicon'' \<noteq> lit ''url''" "lit ''favicon'' \<noteq> lit ''contentType''"
  "lit ''favicon'' \<noteq> lit ''language''" "lit ''favicon'' \<noteq> lit ''title''"
  "lit ''favicon'' \<noteq> lit ''description''" "lit ''favicon'' \<noteq> lit ''image''"
  "lit ''favicon'' \<noteq> lit ''siteName''" "lit ''favicon'' \<noteq> lit ''type''"
  "lit ''favicon'' \<noteq> lit ''urlCanonical''" "lit ''favicon'' \<noteq> lit ''twitterCard''"
  "lit ''title'' \<noteq> lit ''url''" "lit ''title'' \<noteq> lit ''contentType''"
  "lit ''title'' \<noteq> lit ''language''" "lit ''title'' \<noteq> lit ''favicon''"
  "lit ''title'' \<noteq> lit ''description''" "lit ''title'' \<noteq> lit ''image''"
  "lit ''title'' \<noteq> lit ''siteName''" "lit ''title'' \<noteq> lit ''type''"
  "lit ''title'' \<noteq> lit ''urlCanonical''" "lit ''title'' \<noteq> lit ''twitterCard''"
  by (simp_all add: lit_def)

lemma stringify_favicon: "map_of (stringify_preview p) (lit ''favicon'') = favicon p"
  by (simp add: stringify_preview_def map_add_def map_of_present keys_distinct)

lemma stringify_title: "map_of (stringify_preview p) (lit ''title'') = title p"
  by (simp add: stringify_preview_def map_add_def map_of_present keys_distinct
      split: option.splits)

lemma fetch_link_preview_reply:
  assumes "u \<noteq> []" and "fetchLinkPreview e u lg = (Inr p, lg')"
  shows "call_tool v e (lit ''fetch_link_preview'') (args\<lparr>arg_url := Some u\<rparr>) lg =
           (\<lparr>content = JsonObject (stringify_preview p), isError = False\<rparr>, lg')"
  using assms by (simp add: call_tool_def call_tool_try_def String_of_def Let_def)

text \<open>
  Claim C5. \<open>getFavicon\<close> always returns, and returns \<open>undefined\<close> when the probe fails
  (malformed address, rejected request, status that is not a success); when the page itself
  is fetched and read, \<open>fetch_link_preview\<close> then still succeeds, and its JSON object has
  no \<open>favicon\<close> key.
\<close>
theorem favicon_probe_never_fails_call:
  "(\<exists>r lg'. getFavicon e u lg = (Inr r, lg') \<and> (favicon_probe_fails e u \<longrightarrow> r = None)) \<and>
   (net e u 15000 = Inr resp \<and> body_text resp = Inr html \<and> u \<noteq> [] \<and> favicon_probe_fails e u \<longrightarrow>
      (\<exists>obj lg'. call_tool v e (lit ''fetch_link_preview'') (args\<lparr>arg_url := Some u\<rparr>) lg =
                   (\<lparr>content = JsonObject obj, isError = False\<rparr>, lg') \<and>
                 map_of obj (lit ''favicon'') = None))"
proof (intro conjI impI)
  show "\<exists>r lg'. getFavicon e u lg = (Inr r, lg') \<and> (favicon_probe_fails e u \<longrightarrow> r = None)"
    using getFavicon_returns [of e u lg] getFavicon_fails [of e u lg] by auto
next
  assume a: "net e u 15000 = Inr resp \<and> body_text resp = Inr html \<and> u \<noteq> [] \<and> favicon_probe_fails e u"
  then obtain fav lg' where g: "getFavicon e u (lg @ [(u, 15000)]) = (Inr fav, lg')"
    and f: "fetchLinkPreview e u lg =
      (Inr ((extract_preview u (content_type_header resp) (load e html))\<lparr>favicon := fav\<rparr>), lg')"
    using fetchLinkPreview_ok by blast
  from a g have "fav = None"
    using getFavicon_fails [of e u "lg @ [(u, 15000)]"] by simp
  with a f show "\<exists>obj lg'. call_tool v e (lit ''fetch_link_preview'') (args\<lparr>arg_url := Some u\<rparr>) lg =
                   (\<lparr>content = JsonObject obj, isError = False\<rparr>, lg') \<and>
                 map_of obj (lit ''favicon'') = None"
    using fetch_link_preview_reply [of u e lg _ lg' v args]
    by (simp add: stringify_favicon)
qed

theorem favicon_probe_never_fails_call_witness:
  "favicon_probe_fails (serve abc_page not_found) (lit ''http://a'') \<and>
   call_tool part_000 (serve abc_page not_found) (lit ''fetch_link_preview'')
        (no_args\<lparr>arg_url := Some (lit ''http://a'')\<rparr>) [] =
     (\<lparr>content = JsonObject [(lit ''url'', lit ''http://a'')], isError = False\<rparr>,
      [(lit ''http://a'', 15000), (lit ''http://a/favicon.ico'', 3000)]) \<and>
   (\<exists>obj lg'. call_tool part_000 (serve abc_page not_found) (lit ''fetch_link_preview'')
        (no_args\<lparr>arg_url := Some (lit ''http://a'')\<rparr>) [] =
             (\<lparr>content = JsonObject obj, isError = False\<rparr>, lg') \<and>
             map_of obj (lit ''favicon'') = None)"
proof -
  let ?e = "serve abc_page not_found"
  have h1: "favicon_probe_fails ?e (lit ''http://a'')" by code_simp
  have h2: "net ?e (lit ''http://a'') 15000 = Inr ok_response" by code_simp
  have h3: "body_text ok_response = Inr []" by (simp add: ok_response_def)
  have h4: "lit ''http://a'' \<noteq> []" by (simp add: lit_def)
  have ev: "call_tool part_000 ?e (lit ''fetch_link_preview'')
        (no_args\<lparr>arg_url := Some (lit ''http://a'')\<rparr>) [] =
     (\<lparr>content = JsonObject [(lit ''url'', lit ''http://a'')], isError = False\<rparr>,
      [(lit ''http://a'', 15000), (lit ''http://a/favicon.ico'', 3000)])" by code_simp
  from favicon_probe_never_fails_call [of ?e "lit ''http://a''" "[]" ok_response "[]" part_000 no_args] h1 h2 h3 h4 ev
  show ?thesis by blast
qed

subsection \<open>The title of a preview\<close>

lemma falsy_or_undefined: "falsy v \<longleftrightarrow> or_undefined v = None"
  by (simp add: falsy_def or_undefined_def split: option.splits)

lemma or_undefined_Some: "or_undefined v = Some c \<longleftrightarrow> v = Some c \<and> c \<noteq> []"
  by (auto simp: or_undefined_def split: option.splits if_splits)

lemma not_falsy_Some: "\<not> falsy v \<longleftrightarrow> (\<exists>c. v = Some c \<and> c \<noteq> [])"
  by (auto simp: falsy_def split: option.splits)

lemma property_names:
  "lit ''og:title'' \<noteq> []" "lit ''twitter:title'' \<noteq> []"
  "lit ''twitter:title'' \<noteq> lit ''twitter:card''"
  "starts_with (lit ''og:'') (lit ''og:title'')"
  "starts_with (lit ''twitter:'') (lit ''twitter:title'')"
  by (simp_all add: lit_def starts_with_def)

lemma og_step_title:
  "title (og_step el p) =
     (if attr el (lit ''property'') = Some (lit ''og:title'') \<and> \<not> falsy (attr el (lit ''content''))
      then attr el (lit ''content'') else title p)"
  by (auto simp: og_step_def Let_def falsy_def property_names)

lemma twitter_step_title:
  "title (twitter_step el p) =
     (if attr el (lit ''name'') = Some (lit ''twitter:title'') \<and>
         \<not> falsy (attr el (lit ''content'')) \<and> falsy (title p)
      then attr el (lit ''content'') else title p)"
  by (auto simp: twitter_step_def Let_def falsy_def property_names)

lemma contents_of_snoc:
  "contents_of a v (els @ [el]) =
     contents_of a v els @
     (if attr el a = Some v \<and> \<not> falsy (attr el (lit ''content''))
      then [case attr el (lit ''content'') of Some c \<Rightarrow> c | None \<Rightarrow> []] else [])"
  by (auto simp: contents_of_def map_filter_def falsy_def or_undefined_def
      split: option.splits)

lemma contents_of_Cons:
  "contents_of a v (el # els) =
     (if attr el a = Some v \<and> \<not> falsy (attr el (lit ''content''))
      then [case attr el (lit ''content'') of Some c \<Rightarrow> c | None \<Rightarrow> []] else []) @
     contents_of a v els"
  by (auto simp: contents_of_def map_filter_def falsy_def or_undefined_def
      split: option.splits)

lemma og_fold_title:
  "title (fold og_step els p) =
     (if contents_of (lit ''property'') (lit ''og:title'') els = [] then title p
      else Some (last (contents_of (lit ''property'') (lit ''og:title'') els)))"
proof (induction els rule: rev_induct)
  case Nil
  show ?case by (simp add: contents_of_def map_filter_def)
next
  case (snoc el els)
  show ?case
    by (auto simp: og_step_title contents_of_snoc snoc.IH not_falsy_Some)
qed

lemma twitter_fold_title:
  "title (fold twitter_step els p) =
     (if falsy (title p) \<and> contents_of (lit ''name'') (lit ''twitter:title'') els \<noteq> []
      then Some (hd (contents_of (lit ''name'') (lit ''twitter:title'') els))
      else title p)"
proof (induction els arbitrary: p)
  case Nil
  show ?case by (simp add: contents_of_def map_filter_def)
next
  case (Cons el els)
  show ?case
    by (auto simp: twitter_step_title contents_of_Cons Cons.IH falsy_def split: option.splits)
qed

lemma contents_of_select:
  assumes "starts_with p v"
  shows "contents_of a v (select_meta_prefix a p doc) = meta_contents a v doc"
proof -
  have "filter (\<lambda>el. attr el a = Some v) (select_meta_prefix a p doc) = select_meta_eq a v doc"
    unfolding select_meta_prefix_def select_meta_eq_def filter_filter
    by (rule filter_cong) (auto simp: assms split: option.splits)
  then show ?thesis
    by (simp add: contents_of_def meta_contents_def)
qed

lemma meta_contents_nonempty: "c \<in> set (meta_contents a v doc) \<Longrightarrow> c \<noteq> []"
  by (auto simp: meta_contents_def map_filter_def or_undefined_def split: option.splits if_splits)

lemma og_scan_title:
  "title (og_scan doc p) =
     (if meta_contents (lit ''property'') (lit ''og:title'') doc = [] then title p
      else Some (last (meta_contents (lit ''property'') (lit ''og:title'') doc)))"
  by (simp add: og_scan_def og_fold_title contents_of_select property_names)

lemma twitter_scan_title:
  "title (twitter_scan doc p) =
     (if falsy (title p) \<and> meta_contents (lit ''name'') (lit ''twitter:title'') doc \<noteq> []
      then Some (hd (meta_contents (lit ''name'') (lit ''twitter:title'') doc))
      else title p)"
  by (simp add: twitter_scan_def twitter_fold_title contents_of_select property_names)

lemma title_fallback_title:
  "title (title_fallback doc p) =
     (if falsy (title p) then or_undefined (Some (trim (text_of (select_tag (lit ''title'') doc))))
      else title p)"
  by (simp add: title_fallback_def)

lemma description_fallback_title: "title (description_fallback doc p) = title p"
  by (simp add: description_fallback_def split: option.splits)

lemma extract_preview_title:
  "title (extract_preview u ctype doc) =
     (if meta_contents (lit ''property'') (lit ''og:title'') doc \<noteq> []
      then Some (last (meta_contents (lit ''property'') (lit ''og:title'') doc))
      else if meta_contents (lit ''name'') (lit ''twitter:title'') doc \<noteq> []
      then Some (hd (meta_contents (lit ''name'') (lit ''twitter:title'') doc))
      else or_undefined (Some (trim (text_of (select_tag (lit ''title'') doc)))))"
proof -
  have i: "title (initial_preview u ctype doc) = None"
    by (simp add: initial_preview_def)
  have l: "last cs \<noteq> []" if "cs \<noteq> []" "cs = meta_contents a v doc" for cs a v
    using that meta_contents_nonempty [of "last cs" a v doc] by simp
  have h: "hd cs \<noteq> []" if "cs \<noteq> []" "cs = meta_contents a v doc" for cs a v
    using that meta_contents_nonempty [of "hd cs" a v doc] by simp
  show ?thesis
    unfolding extract_preview_def description_fallback_title title_fallback_title
      twitter_scan_title og_scan_title i
    using l h by (auto simp: falsy_def)
qed

text \<open>
  Claim C4. When the page has an \<open>og:title\<close> and a \<open>twitter:title\<close> meta element with
  content that is not empty, the title of the preview that \<open>fetchLinkPreview\<close> returns is
  the content of the \<open>og:title\<close> element (of the last one, when there are several).
\<close>
theorem og_title_wins_over_twitter:
  assumes "net e u 15000 = Inr resp" and "body_text resp = Inr html"
    and "meta_contents (lit ''property'') (lit ''og:title'') (load e html) \<noteq> []"
    and "meta_contents (lit ''name'') (lit ''twitter:title'') (load e html) \<noteq> []"
  shows "\<exists>p lg'. fetchLinkPreview e u lg = (Inr p, lg') \<and>
           title p = Some (last (meta_contents (lit ''property'') (lit ''og:title'') (load e html)))"
  using fetchLinkPreview_ok [OF assms(1,2), of lg] assms(3)
  by (auto simp: extract_preview_title)

theorem og_title_wins_over_twitter_witness:
  "meta_contents (lit ''property'') (lit ''og:title'') og_and_twitter_page = [lit ''Open''] \<and>
   meta_contents (lit ''name'') (lit ''twitter:title'') og_and_twitter_page = [lit ''Tweet''] \<and>
   (\<exists>p lg'. fetchLinkPreview (serve og_and_twitter_page not_found) (lit ''http://a'') [] = (Inr p, lg') \<and>
      title p = Some (lit ''Open''))"
proof -
  let ?e = "serve og_and_twitter_page not_found"
  have h1: "net ?e (lit ''http://a'') 15000 = Inr ok_response" by code_simp
  have h2: "body_text ok_response = Inr []" by (simp add: ok_response_def)
  have l: "load ?e [] = og_and_twitter_page" by (simp add: serve_def)
  have og: "meta_contents (lit ''property'') (lit ''og:title'') og_and_twitter_page = [lit ''Open'']"
    by code_simp
  have tw: "meta_contents (lit ''name'') (lit ''twitter:title'') og_and_twitter_page = [lit ''Tweet'']"
    by code_simp
  from og_title_wins_over_twitter [of ?e "lit ''http://a''" ok_response "[]" "[]", OF h1 h2] og tw
  show ?thesis by (simp add: l)
qed

text \<open>
  Claim C6. When the page has no \<open>og:title\<close> and no \<open>twitter:title\<close> with content and
  the trimmed text of its \<open>title\<close> elements is empty, the JSON object returned by
  \<open>fetch_link_preview\<close> has no \<open>title\<close> key.
\<close>
theorem untitled_page_omits_title:
  assumes "net e u 15000 = Inr resp" and "body_text resp = Inr html" and "u \<noteq> []"
    and "meta_contents (lit ''property'') (lit ''og:title'') (load e html) = []"
    and "meta_contents (lit ''name'') (lit ''twitter:title'') (load e html) = []"
    and "trim (text_of (select_tag (lit ''title'') (load e html))) = []"
  shows "\<exists>obj lg'. call_tool v e (lit ''fetch_link_preview'') (args\<lparr>arg_url := Some u\<rparr>) lg =
                     (\<lparr>content = JsonObject obj, isError = False\<rparr>, lg') \<and>
                   lit ''title'' \<notin> fst ` set obj"
proof -
  obtain fav lg' where f: "fetchLinkPreview e u lg =
      (Inr ((extract_preview u (content_type_header resp) (load e html))\<lparr>favicon := fav\<rparr>), lg')"
    using fetchLinkPreview_ok [OF assms(1,2), of lg] by blast
  let ?p = "(extract_preview u (content_type_header resp) (load e html))\<lparr>favicon := fav\<rparr>"
  have "title ?p = None"
    using assms(4,5,6) by (simp add: extract_preview_title or_undefined_def)
  then have "map_of (stringify_preview ?p) (lit ''title'') = None"
    by (simp only: stringify_title)
  then have "lit ''title'' \<notin> fst ` set (stringify_preview ?p)"
    by (simp add: map_of_eq_None_iff)
  with fetch_link_preview_reply [OF assms(3) f, of v args] show ?thesis
    by blast
qed

theorem untitled_page_omits_title_witness:
  "trim (text_of (select_tag (lit ''title'') untitled_page)) = [] \<and>
   (\<exists>obj lg'. call_tool server_ts (serve untitled_page not_found) (lit ''fetch_link_preview'')
        (no_args\<lparr>arg_url := Some (lit ''http://a'')\<rparr>) [] =
       (\<lparr>content = JsonObject obj, isError = False\<rparr>, lg') \<and> lit ''title'' \<notin> fst ` set obj)"
proof -
  let ?e = "serve untitled_page not_found"
  have h1: "net ?e (lit ''http://a'') 15000 = Inr ok_response" by code_simp
  have h2: "body_text ok_response = Inr []" by (simp add: ok_response_def)
  have h3: "lit ''http://a'' \<noteq> []" by (simp add: lit_def)
  have l: "load ?e [] = untitled_page" by (simp add: serve_def)
  have og: "meta_contents (lit ''property'') (lit ''og:title'') untitled_page = []"
    by code_simp
  have tw: "meta_contents (lit ''name'') (lit ''twitter:title'') untitled_page = []"
    by code_simp
  have ti: "trim (text_of (select_tag (lit ''title'') untitled_page)) = []"
    by code_simp
  from untitled_page_omits_title [of ?e "lit ''http://a''" ok_response "[]" server_ts no_args "[]", OF h1 h2 h3] og tw ti
  show ?thesis by (simp add: l)
qed

subsection \<open>Later sources and fields already set\<close>

lemma twitter_step_keeps:
  "\<not> falsy (title p) \<Longrightarrow> title (twitter_step el p) = title p"
  "\<not> falsy (description p) \<Longrightarrow> description (twitter_step el p) = description p"
  "\<not> falsy (image p) \<Longrightarrow> image (twitter_step el p) = image p"
  "siteName (twitter_step el p) = siteName p"
  "type (twitter_step el p) = type p"
  "urlCanonical (twitter_step el p) = urlCanonical p"
  by (simp_all add: twitter_step_def Let_def)

lemma twitter_fold_keeps_title:
  "\<not> falsy (title p) \<Longrightarrow> title (fold twitter_step els p) = title p"
  by (induction els arbitrary: p) (simp_all add: twitter_step_keeps)

lemma twitter_fold_keeps_description:
  "\<not> falsy (description p) \<Longrightarrow> description (fold twitter_step els p) = description p"
  by (induction els arbitrary: p) (simp_all add: twitter_step_keeps)

lemma twitter_fold_keeps_image:
  "\<not> falsy (image p) \<Longrightarrow> image (fold twitter_step els p) = image p"
  by (induction els arbitrary: p) (simp_all add: twitter_step_keeps)

lemma twitter_fold_keeps_og_only:
  "siteName (fold twitter_step els p) = siteName p \<and>
   type (fold twitter_step els p) = type p \<and>
   urlCanonical (fold twitter_step els p) = urlCanonical p"
  by (induction els arbitrary: p) (simp_all add: twitter_step_keeps)

lemma fallbacks_keep:
  "\<not> falsy (title p) \<Longrightarrow> title (description_fallback doc (title_fallback doc p)) = title p"
  "\<not> falsy (description p) \<Longrightarrow>
     description (description_fallback doc (title_fallback doc p)) = description p"
  "image (description_fallback doc (title_fallback doc p)) = image p"
  "siteName (description_fallback doc (title_fallback doc p)) = siteName p"
  "type (description_fallback doc (title_fallback doc p)) = type p"
  "urlCanonical (description_fallback doc (title_fallback doc p)) = urlCanonical p"
  "twitterCard (description_fallback doc (title_fallback doc p)) = twitterCard p"
  by (simp_all add: description_fallback_def title_fallback_def split: option.splits)

text \<open>Inside a scan without guard the last element of a kind with content wins.\<close>

lemma fold_last_wins:
  assumes "\<And>el p. f (step el p) =
             (if attr el a = Some n \<and> \<not> falsy (attr el (lit ''content''))
              then attr el (lit ''content'') else f p)"
  shows "f (fold step els p) = last_or (f p) (contents_of a n els)"
proof (induction els rule: rev_induct)
  case Nil
  show ?case by (simp add: contents_of_def map_filter_def last_or_def)
next
  case (snoc el els)
  show ?case
    by (auto simp: assms contents_of_snoc snoc.IH not_falsy_Some last_or_def)
qed

lemma og_names:
  "starts_with (lit ''og:'') (lit ''og:description'')"
  "starts_with (lit ''og:'') (lit ''og:image'')"
  "starts_with (lit ''og:'') (lit ''og:site_name'')"
  "starts_with (lit ''og:'') (lit ''og:type'')"
  "starts_with (lit ''og:'') (lit ''og:url'')"
  "starts_with (lit ''twitter:'') (lit ''twitter:card'')"
  by (simp_all add: lit_def starts_with_def)

lemma og_step_description:
  "description (og_step el p) =
     (if attr el (lit ''property'') = Some (lit ''og:description'') \<and>
         \<not> falsy (attr el (lit ''content''))
      then attr el (lit ''content'') else description p)"
  by (auto simp: og_step_def Let_def falsy_def lit_def)

lemma og_step_image:
  "image (og_step el p) =
     (if attr el (lit ''property'') = Some (lit ''og:image'') \<and> \<not> falsy (attr el (lit ''content''))
      then attr el (lit ''content'') else image p)"
  by (auto simp: og_step_def Let_def falsy_def lit_def)

lemma og_step_siteName:
  "siteName (og_step el p) =
     (if attr el (lit ''property'') = Some (lit ''og:site_name'') \<and>
         \<not> falsy (attr el (lit ''content''))
      then attr el (lit ''content'') else siteName p)"
  by (auto simp: og_step_def Let_def falsy_def lit_def)

lemma og_step_type:
  "type (og_step el p) =
     (if attr el (lit ''property'') = Some (lit ''og:type'') \<and> \<not> falsy (attr el (lit ''content''))
      then attr el (lit ''content'') else type p)"
  by (auto simp: og_step_def Let_def falsy_def lit_def)

lemma og_step_urlCanonical:
  "urlCanonical (og_step el p) =
     (if attr el (lit ''property'') = Some (lit ''og:url'') \<and> \<not> falsy (attr el (lit ''content''))
      then attr el (lit ''content'') else urlCanonical p)"
  by (auto simp: og_step_def Let_def falsy_def lit_def)

lemma twitter_step_twitterCard:
  "twitterCard (twitter_step el p) =
     (if attr el (lit ''name'') = Some (lit ''twitter:card'') \<and> \<not> falsy (attr el (lit ''content''))
      then attr el (lit ''content'') else twitterCard p)"
  by (auto simp: twitter_step_def Let_def falsy_def lit_def)

lemma og_scan_last_wins:
  "title (og_scan doc p)
     = last_or (title p) (meta_contents (lit ''property'') (lit ''og:title'') doc)"
  "description (og_scan doc p)
     = last_or (description p) (meta_contents (lit ''property'') (lit ''og:description'') doc)"
  "image (og_scan doc p)
     = last_or (image p) (meta_contents (lit ''property'') (lit ''og:image'') doc)"
  "siteName (og_scan doc p)
     = last_or (siteName p) (meta_contents (lit ''property'') (lit ''og:site_name'') doc)"
  "type (og_scan doc p)
     = last_or (type p) (meta_contents (lit ''property'') (lit ''og:type'') doc)"
  "urlCanonical (og_scan doc p)
     = last_or (urlCanonical p) (meta_contents (lit ''property'') (lit ''og:url'') doc)"
  unfolding og_scan_def
  by (simp_all add: fold_last_wins [where step = og_step, OF og_step_title]
      fold_last_wins [where step = og_step, OF og_step_description]
      fold_last_wins [where step = og_step, OF og_step_image]
      fold_last_wins [where step = og_step, OF og_step_siteName]
      fold_last_wins [where step = og_step, OF og_step_type]
      fold_last_wins [where step = og_step, OF og_step_urlCanonical]
      contents_of_select property_names og_names)

lemma twitter_scan_card_last_wins:
  "twitterCard (twitter_scan doc p)
     = last_or (twitterCard p) (meta_contents (lit ''name'') (lit ''twitter:card'') doc)"
  unfolding twitter_scan_def
  by (simp add: fold_last_wins [where step = twitter_step, OF twitter_step_twitterCard]
      contents_of_select og_names)

text \<open>
  Claim C1, amended. From any state \<open>p\<close> of the preview (after the OpenGraph scan, or
  after any number of Twitter elements), a title, description or image that is set in \<open>p\<close>
  is left as it is by every later Twitter element and by the fallbacks; the site name, the
  type and the canonical address are left as they are by every Twitter element and by the
  fallbacks, and the Twitter card by the fallbacks. Inside the OpenGraph scan there is no
  such guard: each of the six OpenGraph fields ends the scan with the content of the last
  element of its kind that has content (and keeps its value when there is none); the
  Twitter card does the same in the Twitter scan.
\<close>
theorem later_sources_keep_set_fields:
  "(\<not> falsy (title p) \<longrightarrow>
      title (description_fallback doc (title_fallback doc (fold twitter_step els p))) = title p) \<and>
   (\<not> falsy (description p) \<longrightarrow>
      description (description_fallback doc (title_fallback doc (fold twitter_step els p)))
        = description p) \<and>
   (\<not> falsy (image p) \<longrightarrow>
      image (description_fallback doc (title_fallback doc (fold twitter_step els p))) = image p) \<and>
   siteName (description_fallback doc (title_fallback doc (fold twitter_step els p))) = siteName p \<and>
   type (description_fallback doc (title_fallback doc (fold twitter_step els p))) = type p \<and>
   urlCanonical (description_fallback doc (title_fallback doc (fold twitter_step els p)))
     = urlCanonical p \<and>
   twitterCard (description_fallback doc (title_fallback doc p)) = twitterCard p \<and>
   title (og_scan doc p)
     = last_or (title p) (meta_contents (lit ''property'') (lit ''og:title'') doc) \<and>
   description (og_scan doc p)
     = last_or (description p) (meta_contents (lit ''property'') (lit ''og:description'') doc) \<and>
   image (og_scan doc p)
     = last_or (image p) (meta_contents (lit ''property'') (lit ''og:image'') doc) \<and>
   siteName (og_scan doc p)
     = last_or (siteName p) (meta_contents (lit ''property'') (lit ''og:site_name'') doc) \<and>
   type (og_scan doc p)
     = last_or (type p) (meta_contents (lit ''property'') (lit ''og:type'') doc) \<and>
   urlCanonical (og_scan doc p)
     = last_or (urlCanonical p) (meta_contents (lit ''property'') (lit ''og:url'') doc) \<and>
   twitterCard (twitter_scan doc p)
     = last_or (twitterCard p) (meta_contents (lit ''name'') (lit ''twitter:card'') doc)"
  by (simp add: fallbacks_keep twitter_fold_keeps_title twitter_fold_keeps_description
      twitter_fold_keeps_image twitter_fold_keeps_og_only og_scan_last_wins
      twitter_scan_card_last_wins)

theorem later_sources_keep_set_fields_witness:
  "\<not> falsy (title (og_scan rich_page (initial_preview (lit ''http://a'') None rich_page))) \<and>
   \<not> falsy (description (og_scan rich_page (initial_preview (lit ''http://a'') None rich_page))) \<and>
   \<not> falsy (image (og_scan rich_page (initial_preview (lit ''http://a'') None rich_page))) \<and>
   title (extract_preview (lit ''http://a'') None rich_page) = Some (lit ''OgT'') \<and>
   description (extract_preview (lit ''http://a'') None rich_page) = Some (lit ''OgD'') \<and>
   image (extract_preview (lit ''http://a'') None rich_page) = Some (lit ''OgI'') \<and>
   meta_contents (lit ''property'') (lit ''og:description'') rich_page = [lit ''Old'', lit ''OgD'']"
proof -
  let ?p = "og_scan rich_page (initial_preview (lit ''http://a'') None rich_page)"
  have t: "title ?p = Some (lit ''OgT'')" by code_simp
  have d: "description ?p = Some (lit ''OgD'')" by code_simp
  have i: "image ?p = Some (lit ''OgI'')" by code_simp
  have m: "meta_contents (lit ''property'') (lit ''og:description'') rich_page
             = [lit ''Old'', lit ''OgD'']"
    by code_simp
  have f: "\<not> falsy (Some (lit ''OgT''))" "\<not> falsy (Some (lit ''OgD''))" "\<not> falsy (Some (lit ''OgI''))"
    by (simp_all add: falsy_def lit_def)
  from later_sources_keep_set_fields
    [where p = ?p and doc = rich_page
       and els = "select_meta_prefix (lit ''name'') (lit ''twitter:'') rich_page"]
    t d i f m
  show ?thesis
    by (simp add: extract_preview_def twitter_scan_def)
qed

text \<open>
  Claim C1 as stated fails. The page has two \<open>og:title\<close> elements, \<open>First\<close> and then
  \<open>Second\<close>: after the first element the title is \<open>First\<close>, and the second element
  changes it, so that the preview has the title \<open>Second\<close>.
\<close>
theorem duplicate_og_title_overwrites:
  "select_meta_prefix (lit ''property'') (lit ''og:'') two_og_titles_page =
     [meta_tag ''property'' ''og:title'' ''First'', meta_tag ''property'' ''og:title'' ''Second''] \<and>
   title (og_step (meta_tag ''property'' ''og:title'' ''First'')
            (initial_preview (lit ''http://a'') None two_og_titles_page)) = Some (lit ''First'') \<and>
   title (extract_preview (lit ''http://a'') None two_og_titles_page) = Some (lit ''Second'') \<and>
   lit ''First'' \<noteq> lit ''Second''"
  by code_simp

subsection \<open>Boilerplate and the content of scripts\<close>

lemma tag_of_with_script_content [simp]: "tag_of (with_script_content new n) = tag_of n"
  by (cases n) simp_all

lemma has_tag_in_with_script_content [simp]:
  "has_tag_in ts (with_script_content new n) = has_tag_in ts n"
  by (simp add: has_tag_in_def)

lemma remove_in_with_script_content:
  assumes "lit ''script'' \<in> set ts"
  shows "\<not> has_tag_in ts n \<Longrightarrow> remove_in ts (with_script_content new n) = remove_in ts n"
proof (induction n)
  case (Element t as cs)
  from Element.prems assms have t: "t \<noteq> lit ''script''"
    by (auto simp: has_tag_in_def)
  have "map (remove_in ts) (filter (\<lambda>c. \<not> has_tag_in ts c) (map (with_script_content new) cs))
      = map (remove_in ts) (filter (\<lambda>c. \<not> has_tag_in ts c) cs)"
    by (auto simp: filter_map comp_def Element.IH)
  with t show ?case by simp
qed simp_all

lemma remove_tags_with_script_content:
  assumes "lit ''script'' \<in> set ts"
  shows "remove_tags ts (map (with_script_content new) doc) = remove_tags ts doc"
  by (auto simp: remove_tags_def filter_map comp_def remove_in_with_script_content [OF assms])

lemma script_is_boilerplate:
  "lit ''script'' \<in> set (boilerplate server_ts)" "lit ''script'' \<in> set (boilerplate part_000)"
  by (simp_all add: server_ts_def part_000_def boilerplate_server_ts_def boilerplate_part_000_def)

lemma page_content_with_script_content:
  assumes "lit ''script'' \<in> set ts"
  shows "page_content ts (map (with_script_content new) doc) m = page_content ts doc m"
  by (simp add: page_content_def remove_tags_with_script_content [OF assms])

lemma removed_subtree:
  "\<not> has_tag_in ts n \<Longrightarrow> el \<in> set (subtree_elements (remove_in ts n)) \<Longrightarrow> \<not> has_tag_in ts el"
  by (induction n arbitrary: el) (auto simp: has_tag_in_def)

lemma removed_document:
  "el \<in> set (all_elements (remove_tags ts doc)) \<Longrightarrow> \<not> has_tag_in ts el"
  by (auto simp: all_elements_def remove_tags_def dest: removed_subtree)

lemma call_tool_with_script_content:
  assumes "lit ''script'' \<in> set (boilerplate v)"
  shows "call_tool v (e\<lparr>load := \<lambda>html. map (with_script_content new) (load e html)\<rparr>)
           (lit ''get_page_content'') args lg
         = call_tool v e (lit ''get_page_content'') args lg"
  by (simp add: call_tool_def call_tool_try_def tool_names_distinct fetchWithTimeout_def net_def
      Let_def page_content_with_script_content [OF assms] split: sum.splits)

text \<open>
  Claim C7, amended. What the \<open>script\<close> elements of the parsed page contain does not
  contribute to the reply of \<open>get_page_content\<close>: the reply is the same when they hold
  any other nodes, and no \<open>script\<close> element is left in the tree the text is taken from.
\<close>
theorem script_content_never_contributes:
  "call_tool server_ts (e\<lparr>load := \<lambda>html. map (with_script_content new) (load e html)\<rparr>)
       (lit ''get_page_content'') args lg
     = call_tool server_ts e (lit ''get_page_content'') args lg \<and>
   call_tool part_000 (e\<lparr>load := \<lambda>html. map (with_script_content new) (load e html)\<rparr>)
       (lit ''get_page_content'') args lg
     = call_tool part_000 e (lit ''get_page_content'') args lg \<and>
   (\<forall>el \<in> set (all_elements (remove_tags (boilerplate server_ts) doc)).
       tag_of el \<noteq> Some (lit ''script'')) \<and>
   (\<forall>el \<in> set (all_elements (remove_tags (boilerplate part_000) doc)).
       tag_of el \<noteq> Some (lit ''script''))"
proof -
  have "tag_of el \<noteq> Some (lit ''script'')"
    if "el \<in> set (all_elements (remove_tags ts doc))" "lit ''script'' \<in> set ts" for el ts
    using removed_document [OF that(1)] that(2) by (auto simp: has_tag_in_def)
  then show ?thesis
    by (simp add: call_tool_with_script_content script_is_boilerplate)
qed

theorem script_content_never_contributes_witness:
  "call_tool server_ts
       ((serve script_page not_found)
          \<lparr>load := \<lambda>html. map (with_script_content []) (load (serve script_page not_found) html)\<rparr>)
       (lit ''get_page_content'') (no_args\<lparr>arg_url := Some (lit ''http://a'')\<rparr>) []
     = call_tool server_ts (serve script_page not_found) (lit ''get_page_content'')
         (no_args\<lparr>arg_url := Some (lit ''http://a'')\<rparr>) [] \<and>
   fst (call_tool server_ts (serve script_page not_found) (lit ''get_page_content'')
         (no_args\<lparr>arg_url := Some (lit ''http://a'')\<rparr>) [])
     = \<lparr>content = PlainText (lit ''hi''), isError = False\<rparr> \<and>
   Element (lit ''p'') [] [Text (lit ''hi'')]
     \<in> set (all_elements (remove_tags (boilerplate server_ts) script_page)) \<and>
   tag_of (Element (lit ''p'') [] [Text (lit ''hi'')]) \<noteq> Some (lit ''script'') \<and>
   Element (lit ''p'') [] [Text (lit ''hi'')]
     \<in> set (all_elements (remove_tags (boilerplate part_000) script_page))"
proof -
  have m1: "Element (lit ''p'') [] [Text (lit ''hi'')]
      \<in> set (all_elements (remove_tags (boilerplate server_ts) script_page))"
    by code_simp
  have m2: "Element (lit ''p'') [] [Text (lit ''hi'')]
      \<in> set (all_elements (remove_tags (boilerplate part_000) script_page))"
    by code_simp
  have r: "fst (call_tool server_ts (serve script_page not_found) (lit ''get_page_content'')
         (no_args\<lparr>arg_url := Some (lit ''http://a'')\<rparr>) [])
     = \<lparr>content = PlainText (lit ''hi''), isError = False\<rparr>"
    by code_simp
  from script_content_never_contributes
    [where e = "serve script_page not_found" and new = "[]"
       and args = "no_args\<lparr>arg_url := Some (lit ''http://a'')\<rparr>" and lg = "[]"
       and doc = script_page] m1 m2 r
  show ?thesis by blast
qed

text \<open>
  Claim C7 as stated fails. The body of the page is a paragraph \<open>hi\<close> followed by a
  \<open>script\<close> element whose text is \<open>hi\<close>: the text returned is \<open>hi\<close>, of which the
  text of the script is a substring.
\<close>
theorem script_text_can_occur_in_content:
  "Element (lit ''script'') [] [Text (lit ''hi'')] \<in> set (all_elements script_page) \<and>
   textContent (Element (lit ''script'') [] [Text (lit ''hi'')]) = lit ''hi'' \<and>
   fst (call_tool server_ts (serve script_page not_found) (lit ''get_page_content'')
          (no_args\<lparr>arg_url := Some (lit ''http://a'')\<rparr>) [])
     = \<lparr>content = PlainText (lit ''hi''), isError = False\<rparr> \<and>
   fst (call_tool part_000 (serve script_page not_found) (lit ''get_page_content'')
          (no_args\<lparr>arg_url := Some (lit ''http://a'')\<rparr>) [])
     = \<lparr>content = PlainText (lit ''hi''), isError = False\<rparr> \<and>
   sublist (lit ''hi'') (lit ''hi'')"
proof -
  have "sublist (lit ''hi'') (lit ''hi'')" by simp
  moreover have "Element (lit ''script'') [] [Text (lit ''hi'')] \<in> set (all_elements script_page)"
    by code_simp
  moreover have "textContent (Element (lit ''script'') [] [Text (lit ''hi'')]) = lit ''hi''"
    by simp
  moreover have "fst (call_tool server_ts (serve script_page not_found) (lit ''get_page_content'')
          (no_args\<lparr>arg_url := Some (lit ''http://a'')\<rparr>) [])
     = \<lparr>content = PlainText (lit ''hi''), isError = False\<rparr>"
    by code_simp
  moreover have "fst (call_tool part_000 (serve script_page not_found) (lit ''get_page_content'')
          (no_args\<lparr>arg_url := Some (lit ''http://a'')\<rparr>) [])
     = \<lparr>content = PlainText (lit ''hi''), isError = False\<rparr>"
    by code_simp
  ultimately show ?thesis by blast
qed

subsection \<open>The results of a search\<close>

text \<open>
  Claim C8, amended. The results of \<open>searchWeb\<close> are the records of the first ten valid
  blocks of the page, in document order (a block is valid when the \<open>href\<close> of its first
  title anchor and the trimmed text of its title anchors are not empty); the snippet of a
  block without snippet element is the empty string; and when the query is encoded and the
  results page is fetched and read, \<open>searchWeb\<close> returns these results, so that an invalid
  block is no error.
\<close>
theorem search_results_first_ten_valid_blocks:
  "search_results doc
     = take 10 (map block_record (filter block_ok (select_class (lit ''result'') doc))) \<and>
   (find_class (lit ''result__snippet'') el = [] \<longrightarrow> r_snippet (block_record el) = []) \<and>
   (encodeURIComponent e q = Inr encoded \<and>
    net e (lit ''https://duckduckgo.com/html/?q='' @ encoded @ lit ''&kl=us-en'') 10000 = Inr resp \<and>
    body_text resp = Inr html \<longrightarrow>
    fst (searchWeb e q lg) = Inr (search_results (load e html)))"
  by (simp add: search_results_eq block_record_def text_of_def trim_def searchWeb_def
      fetchWithTimeout_ok Let_def)

theorem search_results_first_ten_valid_blocks_witness:
  "find_class (lit ''result__snippet'') (result_block ''B'') = [] \<and>
   r_snippet (block_record (result_block ''B'')) = [] \<and>
   fst (searchWeb (serve eleven_results_page not_found) (lit ''q'') [])
     = Inr (search_results eleven_results_page) \<and>
   search_results eleven_results_page
     = take 10 (map block_record
         (filter block_ok (select_class (lit ''result'') eleven_results_page))) \<and>
   search_results odd_blocks_page
     = [\<lparr>r_title = lit ''T'', r_url = lit ''http://x'', r_snippet = []\<rparr>,
        \<lparr>r_title = lit ''U'', r_url = lit ''http://y'', r_snippet = []\<rparr>]"
proof -
  let ?e = "serve eleven_results_page not_found"
  have h1: "find_class (lit ''result__snippet'') (result_block ''B'') = []"
    by (rule result_block_snippet)
  have h0: "encodeURIComponent ?e (lit ''q'') = Inr (lit ''q'')" by (simp add: serve_def)
  have h2: "net ?e (lit ''https://duckduckgo.com/html/?q='' @ lit ''q'' @ lit ''&kl=us-en'') 10000
              = Inr ok_response"
    by code_simp
  have h3: "body_text ok_response = Inr []" by (simp add: ok_response_def)
  have l: "load ?e [] = eleven_results_page" by (simp add: serve_def)
  have o: "search_results odd_blocks_page
     = [\<lparr>r_title = lit ''T'', r_url = lit ''http://x'', r_snippet = []\<rparr>,
        \<lparr>r_title = lit ''U'', r_url = lit ''http://y'', r_snippet = []\<rparr>]"
    by code_simp
  from search_results_first_ten_valid_blocks
    [where doc = eleven_results_page and el = "result_block ''B''" and e = ?e and q = "lit ''q''"
       and encoded = "lit ''q''" and resp = ok_response and html = "[]" and lg = "[]"]
    h0 h1 h2 h3 o
  show ?thesis by (simp add: l)
qed

text \<open>
  Claim C8 as stated fails. The page has eleven valid blocks, ten with the title \<open>A\<close> and
  then one with the title \<open>B\<close>: the last block has a link and a title, and \<open>searchWeb\<close>
  does not include it.
\<close>
theorem eleventh_valid_block_is_dropped:
  "result_block ''B'' \<in> set (select_class (lit ''result'') eleven_results_page) \<and>
   block_ok (result_block ''B'') \<and>
   block_record (result_block ''B'') \<notin> set (search_results eleven_results_page) \<and>
   fst (searchWeb (serve eleven_results_page not_found) (lit ''q'') [])
     = Inr (replicate 10 \<lparr>r_title = lit ''A'', r_url = lit ''http://x'', r_snippet = []\<rparr>)"
proof -
  have d: "lit ''B'' \<noteq> lit ''A''" "lit ''B'' \<noteq> []" by (simp_all add: lit_def)
  then show ?thesis
    by (simp add: eleven_results_blocks eleven_results_value searchWeb_serve result_block_ok
        result_block_record trim_A_B)
qed

end
